theory Spec2Isabelle
  imports Complex_Main "HOL-Library.AList"
begin

section \<open>Values produced by the JSON parser\<close>

text \<open>
  \<^verbatim>\<open>json.load\<close> returns Python objects: \<^verbatim>\<open>None\<close>, \<^verbatim>\<open>bool\<close>, \<^verbatim>\<open>int\<close>, \<^verbatim>\<open>float\<close>,
  \<^verbatim>\<open>str\<close>, \<^verbatim>\<open>list\<close> and \<^verbatim>\<open>dict\<close> (with \<^verbatim>\<open>str\<close> keys, in insertion order).
  A dict is an association list; a dict built by the parser has pairwise distinct keys.
  Python's \<^verbatim>\<open>None\<close> and JSON's \<^verbatim>\<open>null\<close> are the same object, \<open>JNull\<close>.
  A string is the list of its characters. A float is its value, a rational, or one of
  the parser's \<^verbatim>\<open>Infinity\<close>, \<^verbatim>\<open>-Infinity\<close> and \<^verbatim>\<open>NaN\<close>; the code only ever tests a
  float for being zero, and both zeros are \<open>FloatVal 0\<close>.
\<close>

datatype pyfloat = FloatVal rat | FloatInf | FloatNegInf | FloatNaN

datatype json =
    JNull
  | JBool bool
  | JInt int
  | JFloat pyfloat
  | JStr string
  | JList "json list"
  | JDict "(string \<times> json) list"

text \<open>
  The exceptions of the code, one constructor for each \<^verbatim>\<open>raise\<close> statement and one for
  each built-in exception a dynamic operation can raise.
\<close>

datatype error =
    ValueError_no_version_key
  | ValueError_unknown_version json
  | ValueError_invalid_uid
  | ValueError_invalid_gid
  | KeyError json
  | IndexError
  | TypeError
  | AttributeError

text \<open>
  The error kinds of the specification: \<open>InvalidConfig\<close> is either \<^verbatim>\<open>ValueError\<close> raised by
  \<^verbatim>\<open>load\<close>, \<open>InvalidValue\<close> either \<^verbatim>\<open>ValueError\<close> raised by an entry constructor,
  \<open>MissingKey\<close> is \<^verbatim>\<open>KeyError\<close>.
\<close>

fun is_InvalidConfig :: "error \<Rightarrow> bool" where
  "is_InvalidConfig ValueError_no_version_key = True"
| "is_InvalidConfig (ValueError_unknown_version v) = True"
| "is_InvalidConfig e = False"

fun is_InvalidValue :: "error \<Rightarrow> bool" where
  "is_InvalidValue ValueError_invalid_uid = True"
| "is_InvalidValue ValueError_invalid_gid = True"
| "is_InvalidValue e = False"

fun is_MissingKey :: "error \<Rightarrow> bool" where
  "is_MissingKey (KeyError k) = True"
| "is_MissingKey e = False"

text \<open>
  A generator is the list of the items it yields, and the exception that ends it, if one
  does.
\<close>

type_synonym 'a generator = "'a list \<times> error option"

subsection \<open>The dynamic operations the code applies to parsed values\<close>

text \<open>Truthiness, as \<^verbatim>\<open>if x:\<close> tests it.\<close>

fun truthy :: "json \<Rightarrow> bool" where
  "truthy JNull = False"
| "truthy (JBool b) = b"
| "truthy (JInt i) = (i \<noteq> 0)"
| "truthy (JFloat f) = (f \<noteq> FloatVal 0)"
| "truthy (JStr s) = (s \<noteq> [])"
| "truthy (JList xs) = (xs \<noteq> [])"
| "truthy (JDict d) = (d \<noteq> [])"

text \<open>\<^verbatim>\<open>isinstance(x, int)\<close>: \<^verbatim>\<open>bool\<close> is a subclass of \<^verbatim>\<open>int\<close>.\<close>

fun isinstance_int :: "json \<Rightarrow> bool" where
  "isinstance_int (JInt i) = True"
| "isinstance_int (JBool b) = True"
| "isinstance_int v = False"

text \<open>\<^verbatim>\<open>x.get(k, default)\<close>: only a dict has the method.\<close>

fun method_get :: "json \<Rightarrow> string \<Rightarrow> json \<Rightarrow> error + json" where
  "method_get (JDict d) k dflt = Inr (case map_of d k of Some v \<Rightarrow> v | None \<Rightarrow> dflt)"
| "method_get v k dflt = Inl AttributeError"

text \<open>\<^verbatim>\<open>x.items()\<close>: only a dict has the method.\<close>

fun method_items :: "json \<Rightarrow> error + (string \<times> json) list" where
  "method_items (JDict d) = Inr d"
| "method_items v = Inl AttributeError"

text \<open>Indexing a sequence with an integer; a negative index counts from the end.\<close>

definition seq_index :: "'a list \<Rightarrow> int \<Rightarrow> error + 'a" where
  "seq_index xs i =
     (if 0 \<le> i \<and> i < int (length xs) then Inr (xs ! nat i)
      else if i < 0 \<and> - int (length xs) \<le> i then Inr (xs ! nat (int (length xs) + i))
      else Inl IndexError)"

text \<open>
  \<^verbatim>\<open>x[k]\<close>. A dict's keys are strings, so any other hashable key is missing and a list or
  dict as key is unhashable; a list or string takes an \<^verbatim>\<open>int\<close> (or \<^verbatim>\<open>bool\<close>) index;
  nothing else can be subscripted.
\<close>

fun subscript :: "json \<Rightarrow> json \<Rightarrow> error + json" where
  "subscript (JDict d) (JStr k) =
     (case map_of d k of Some v \<Rightarrow> Inr v | None \<Rightarrow> Inl (KeyError (JStr k)))"
| "subscript (JDict d) (JList ks) = Inl TypeError"
| "subscript (JDict d) (JDict ks) = Inl TypeError"
| "subscript (JDict d) k = Inl (KeyError k)"
| "subscript (JList xs) (JInt i) = seq_index xs i"
| "subscript (JList xs) (JBool b) = seq_index xs (if b then 1 else 0)"
| "subscript (JList xs) k = Inl TypeError"
| "subscript (JStr s) (JInt i) = map_sum id (\<lambda>c. JStr [c]) (seq_index s i)"
| "subscript (JStr s) (JBool b) = map_sum id (\<lambda>c. JStr [c]) (seq_index s (if b then 1 else 0))"
| "subscript (JStr s) k = Inl TypeError"
| "subscript v k = Inl TypeError"

text \<open>
  \<^verbatim>\<open>for x in v\<close> and \<^verbatim>\<open>enumerate(v)\<close>: a list gives its elements, a string its characters, a
  dict its keys; nothing else is iterable.
\<close>

fun iterate :: "json \<Rightarrow> error + json list" where
  "iterate (JList xs) = Inr xs"
| "iterate (JStr s) = Inr (map (\<lambda>c. JStr [c]) s)"
| "iterate (JDict d) = Inr (map (\<lambda>kv. JStr (fst kv)) d)"
| "iterate v = Inl TypeError"

text \<open>
  \<^verbatim>\<open>d.update(other)\<close> on dicts: each item of \<open>other\<close> in turn replaces the value of a key
  that is there, in place, and is appended otherwise.
\<close>

definition dict_update :: "(string \<times> json) list \<Rightarrow> (string \<times> json) list \<Rightarrow> (string \<times> json) list" where
  "dict_update d other = fold (\<lambda>kv. AList.update (fst kv) (snd kv)) other d"

subsection \<open>Integers and their rendering\<close>

text \<open>
  A value that passed \<^verbatim>\<open>isinstance(x, int)\<close>: an \<^verbatim>\<open>int\<close> or a \<^verbatim>\<open>bool\<close>. As a dict key
  it counts by its number (\<^verbatim>\<open>True == 1\<close>), while \<^verbatim>\<open>str\<close> prints a \<^verbatim>\<open>bool\<close> by name.
\<close>

datatype pyint = PyInt int | PyBool bool

fun as_pyint :: "json \<Rightarrow> pyint option" where
  "as_pyint (JInt i) = Some (PyInt i)"
| "as_pyint (JBool b) = Some (PyBool b)"
| "as_pyint v = None"

fun json_of_pyint :: "pyint \<Rightarrow> json" where
  "json_of_pyint (PyInt i) = JInt i"
| "json_of_pyint (PyBool b) = JBool b"

fun pyint_val :: "pyint \<Rightarrow> int" where
  "pyint_val (PyInt i) = i"
| "pyint_val (PyBool b) = (if b then 1 else 0)"

fun pyint_truthy :: "pyint \<Rightarrow> bool" where
  "pyint_truthy (PyInt i) = (i \<noteq> 0)"
| "pyint_truthy (PyBool b) = b"

fun str_nat :: "nat \<Rightarrow> string" where
  "str_nat n =
     (if n < 10 then [''0123456789'' ! n]
      else str_nat (n div 10) @ [''0123456789'' ! (n mod 10)])"

declare str_nat.simps [simp del]

definition str_int :: "int \<Rightarrow> string" where
  "str_int i = (if i < 0 then CHR ''-'' # str_nat (nat (- i)) else str_nat (nat i))"

fun py_str :: "pyint \<Rightarrow> string" where
  "py_str (PyInt i) = str_int i"
| "py_str (PyBool b) = (if b then ''True'' else ''False'')"

section \<open>The configuration classes\<close>

definition VALID_VERSIONS :: "string list" where
  "VALID_VERSIONS = [''v0'']"

record GlobalConfig =
  data :: "(string \<times> json) list"

text \<open>
  A view holds a reference to the \<open>GlobalConfig\<close> it was made from; here it holds the
  store as it is when the view is queried.
\<close>

record InstanceConfig =
  gconfig :: GlobalConfig
  iconfig :: json

record ShareConfig =
  share_gconfig :: GlobalConfig
  name :: json

text \<open>
  \<open>_uid\<close> and \<open>_gid\<close> of a constructed entry are \<^verbatim>\<open>None\<close> or passed \<^verbatim>\<open>isinstance(x, int)\<close>.
  The two password fields (\<^verbatim>\<open>str\<close> of a parsed value, which cannot raise) are read by
  no operation below and are left out.
\<close>

record UserEntry =
  user_iconfig :: InstanceConfig
  username :: json
  entry_num :: nat
  user_uid :: "pyint option"
  user_gid :: "pyint option"

text \<open>\<^verbatim>\<open>GroupEntry.__init__\<close> takes \<open>num\<close> and stores no \<open>entry_num\<close>.\<close>

record GroupEntry =
  group_iconfig :: InstanceConfig
  groupname :: json
  group_gid :: "pyint option"

subsection \<open>\<open>GlobalConfig\<close>\<close>

text \<open>
  \<open>load\<close> takes the parsed document and returns its outcome with the object after the
  call, so that what an exception leaves behind is part of the model. A document that is
  not a dict has no method \<^verbatim>\<open>get\<close>: the first statement after parsing raises
  \<^verbatim>\<open>AttributeError\<close>.
\<close>

definition load :: "GlobalConfig \<Rightarrow> json \<Rightarrow> (error + unit) \<times> GlobalConfig" where
  "load self doc =
     (case doc of
        JDict d \<Rightarrow>
          (case method_get doc ''samba-container-config'' JNull of
             Inl e \<Rightarrow> (Inl e, self)
           | Inr version \<Rightarrow>
               if version = JNull then (Inl ValueError_no_version_key, self)
               else if version \<notin> set (map JStr VALID_VERSIONS)
                 then (Inl (ValueError_unknown_version version), self)
               else (Inr (), self\<lparr>data := dict_update (data self) d\<rparr>))
      | _ \<Rightarrow> (Inl AttributeError, self))"

definition GlobalConfig_init :: "json option \<Rightarrow> error + GlobalConfig" where
  "GlobalConfig_init source =
     (case source of
        None \<Rightarrow> Inr \<lparr>data = []\<rparr>
      | Some doc \<Rightarrow>
          (case load \<lparr>data = []\<rparr> doc of
             (Inl e, g) \<Rightarrow> Inl e
           | (Inr u, g) \<Rightarrow> Inr g))"

fun load_all :: "GlobalConfig \<Rightarrow> json list \<Rightarrow> error + GlobalConfig" where
  "load_all g [] = Inr g"
| "load_all g (doc # docs) =
     (case load g doc of
        (Inl e, g') \<Rightarrow> Inl e
      | (Inr u, g') \<Rightarrow> load_all g' docs)"

text \<open>\<open>read_config_files\<close>, from the parsed contents of the files, in order.\<close>

definition read_config_files :: "json list \<Rightarrow> error + GlobalConfig" where
  "read_config_files docs = load_all \<lparr>data = []\<rparr> docs"

definition get :: "GlobalConfig \<Rightarrow> string \<Rightarrow> error + InstanceConfig" where
  "get self ident =
     (case subscript (JDict (data self)) (JStr ''configs'') of
        Inl e \<Rightarrow> Inl e
      | Inr configs \<Rightarrow>
          (case subscript configs (JStr ident) of
             Inl e \<Rightarrow> Inl e
           | Inr ic \<Rightarrow> Inr \<lparr>gconfig = self, iconfig = ic\<rparr>))"

subsection \<open>\<open>InstanceConfig\<close>\<close>

text \<open>The options of one referenced section: the body of the outer loop, up to its yields.\<close>

definition section_options :: "GlobalConfig \<Rightarrow> json \<Rightarrow> error + (string \<times> json) list" where
  "section_options g gname =
     (case subscript (JDict (data g)) (JStr ''globals'') of
        Inl e \<Rightarrow> Inl e
      | Inr globals \<Rightarrow>
          (case subscript globals gname of
             Inl e \<Rightarrow> Inl e
           | Inr global_section \<Rightarrow>
               (case method_get global_section ''options'' (JDict []) of
                  Inl e \<Rightarrow> Inl e
                | Inr opts \<Rightarrow> method_items opts)))"

fun sections_loop :: "GlobalConfig \<Rightarrow> json list \<Rightarrow> (string \<times> json) generator" where
  "sections_loop g [] = ([], None)"
| "sections_loop g (gname # gnames) =
     (case section_options g gname of
        Inl e \<Rightarrow> ([], Some e)
      | Inr kvs \<Rightarrow>
          (case sections_loop g gnames of (ys, r) \<Rightarrow> (kvs @ ys, r)))"

definition global_options :: "InstanceConfig \<Rightarrow> (string \<times> json) generator" where
  "global_options self =
     (case subscript (iconfig self) (JStr ''globals'') of
        Inl e \<Rightarrow> ([], Some e)
      | Inr gnames \<Rightarrow>
          (case iterate gnames of
             Inl e \<Rightarrow> ([], Some e)
           | Inr gs \<Rightarrow>
               (case sections_loop (gconfig self) gs of
                  (ys, Some e) \<Rightarrow> (ys, Some e)
                | (ys, None) \<Rightarrow>
                    (case method_get (iconfig self) ''instance_name'' JNull of
                       Inl e \<Rightarrow> (ys, Some e)
                     | Inr instance_name \<Rightarrow>
                         if truthy instance_name
                         then (ys @ [(''netbios name'', instance_name)], None)
                         else (ys, None)))))"

definition uid_base :: "InstanceConfig \<Rightarrow> int" where
  "uid_base self = 1000"

definition gid_base :: "InstanceConfig \<Rightarrow> int" where
  "gid_base self = 1000"

definition shares :: "InstanceConfig \<Rightarrow> ShareConfig generator" where
  "shares self =
     (case method_get (iconfig self) ''shares'' (JList []) of
        Inl e \<Rightarrow> ([], Some e)
      | Inr snames \<Rightarrow>
          (case iterate snames of
             Inl e \<Rightarrow> ([], Some e)
           | Inr ss \<Rightarrow>
               (map (\<lambda>sname. \<lparr>share_gconfig = gconfig self, name = sname\<rparr>) ss, None)))"

subsection \<open>\<open>ShareConfig\<close>\<close>

definition share_options :: "ShareConfig \<Rightarrow> error + (string \<times> json) list" where
  "share_options self =
     (case subscript (JDict (data (share_gconfig self))) (JStr ''shares'') of
        Inl e \<Rightarrow> Inl e
      | Inr shs \<Rightarrow>
          (case subscript shs (name self) of
             Inl e \<Rightarrow> Inl e
           | Inr share_section \<Rightarrow>
               (case method_get share_section ''options'' (JDict []) of
                  Inl e \<Rightarrow> Inl e
                | Inr opts \<Rightarrow> method_items opts)))"

subsection \<open>\<open>UserEntry\<close> and \<open>GroupEntry\<close>\<close>

text \<open>
  The check of one raw id field: \<^verbatim>\<open>None\<close> is kept, an \<^verbatim>\<open>int\<close> is kept, anything else
  raises the given error.
\<close>

definition check_id :: "error \<Rightarrow> json \<Rightarrow> error + pyint option" where
  "check_id err v =
     (if v = JNull then Inr None
      else if \<not> isinstance_int v then Inl err
      else Inr (as_pyint v))"

definition UserEntry_init :: "InstanceConfig \<Rightarrow> json \<Rightarrow> nat \<Rightarrow> error + UserEntry" where
  "UserEntry_init iconf urec num =
     (case subscript urec (JStr ''name'') of
        Inl e \<Rightarrow> Inl e
      | Inr nm \<Rightarrow>
          (case method_get urec ''uid'' JNull of
             Inl e \<Rightarrow> Inl e
           | Inr uid_raw \<Rightarrow>
               (case method_get urec ''gid'' JNull of
                  Inl e \<Rightarrow> Inl e
                | Inr gid_raw \<Rightarrow>
                    (case check_id ValueError_invalid_uid uid_raw of
                       Inl e \<Rightarrow> Inl e
                     | Inr u \<Rightarrow>
                         (case check_id ValueError_invalid_gid gid_raw of
                            Inl e \<Rightarrow> Inl e
                          | Inr g \<Rightarrow>
                              Inr \<lparr>user_iconfig = iconf, username = nm, entry_num = num,
                                   user_uid = u, user_gid = g\<rparr>)))))"

definition uid :: "UserEntry \<Rightarrow> pyint" where
  "uid self =
     (case user_uid self of
        Some v \<Rightarrow> if pyint_truthy v then v
                  else PyInt (uid_base (user_iconfig self) + int (entry_num self))
      | None \<Rightarrow> PyInt (uid_base (user_iconfig self) + int (entry_num self)))"

definition gid :: "UserEntry \<Rightarrow> pyint" where
  "gid self =
     (case user_gid self of
        Some v \<Rightarrow> if pyint_truthy v then v
                  else PyInt (gid_base (user_iconfig self) + int (entry_num self))
      | None \<Rightarrow> PyInt (gid_base (user_iconfig self) + int (entry_num self)))"

definition dir :: "UserEntry \<Rightarrow> string" where
  "dir self = ''/invalid''"

definition shell :: "UserEntry \<Rightarrow> string" where
  "shell self = ''/bin/false''"

definition passwd_fields ::
  "UserEntry \<Rightarrow> json \<times> string \<times> string \<times> string \<times> string \<times> string \<times> string" where
  "passwd_fields self =
     (username self, ''x'', py_str (uid self), py_str (gid self), '''', dir self, shell self)"

definition GroupEntry_init :: "InstanceConfig \<Rightarrow> json \<Rightarrow> nat \<Rightarrow> error + GroupEntry" where
  "GroupEntry_init iconf grec num =
     (case subscript grec (JStr ''name'') of
        Inl e \<Rightarrow> Inl e
      | Inr nm \<Rightarrow>
          (case method_get grec ''gid'' JNull of
             Inl e \<Rightarrow> Inl e
           | Inr gid_raw \<Rightarrow>
               (case check_id ValueError_invalid_gid gid_raw of
                  Inl e \<Rightarrow> Inl e
                | Inr g \<Rightarrow>
                    Inr \<lparr>group_iconfig = iconf, groupname = nm, group_gid = g\<rparr>)))"

text \<open>
  \<^verbatim>\<open>GroupEntry.gid\<close>: the fall-through reads \<^verbatim>\<open>self.entry_num\<close>, an attribute no
  \<open>GroupEntry\<close> has, after \<^verbatim>\<open>gid_base()\<close> has returned.
\<close>

definition GroupEntry_gid :: "GroupEntry \<Rightarrow> error + pyint" where
  "GroupEntry_gid self =
     (case group_gid self of
        Some v \<Rightarrow> if pyint_truthy v then Inr v else Inl AttributeError
      | None \<Rightarrow> Inl AttributeError)"

definition group_fields :: "GroupEntry \<Rightarrow> error + json \<times> string \<times> string \<times> string" where
  "group_fields self =
     (case GroupEntry_gid self of
        Inl e \<Rightarrow> Inl e
      | Inr g \<Rightarrow> Inr (groupname self, ''x'', py_str g, ''''))"

text \<open>
  \<open>vgroup\<close> builds the record \<^verbatim>\<open>dict(name=self.username, gid=self.gid)\<close> and constructs a
  \<open>GroupEntry\<close> from it at position 0.
\<close>

definition vgroup :: "UserEntry \<Rightarrow> error + GroupEntry" where
  "vgroup self =
     GroupEntry_init (user_iconfig self)
       (JDict [(''name'', username self), (''gid'', json_of_pyint (gid self))]) 0"

subsection \<open>\<open>users\<close> and \<open>groups\<close>\<close>

text \<open>\<^verbatim>\<open>self.gconfig.data.get(section, {}).get("all_entries", {})\<close>, then iterated.\<close>

definition all_entries :: "InstanceConfig \<Rightarrow> string \<Rightarrow> error + json list" where
  "all_entries self section =
     (case method_get (JDict (data (gconfig self))) section (JDict []) of
        Inl e \<Rightarrow> Inl e
      | Inr sec \<Rightarrow>
          (case method_get sec ''all_entries'' (JDict []) of
             Inl e \<Rightarrow> Inl e
           | Inr entries \<Rightarrow> iterate entries))"

fun users_loop :: "InstanceConfig \<Rightarrow> nat \<Rightarrow> json list \<Rightarrow> UserEntry generator" where
  "users_loop self n [] = ([], None)"
| "users_loop self n (entry # entries) =
     (case UserEntry_init self entry n of
        Inl e \<Rightarrow> ([], Some e)
      | Inr u \<Rightarrow>
          (case users_loop self (Suc n) entries of (ys, r) \<Rightarrow> (u # ys, r)))"

definition users :: "InstanceConfig \<Rightarrow> UserEntry generator" where
  "users self =
     (case all_entries self ''users'' of
        Inl e \<Rightarrow> ([], Some e)
      | Inr entries \<Rightarrow> users_loop self 0 entries)"

text \<open>
  \<^verbatim>\<open>entry.gid()\<close> in \<open>groups\<close>: \<open>entry\<close> is an element of the parsed \<open>all_entries\<close>, and no
  object the parser produces has an attribute \<open>gid\<close>.
\<close>

definition entry_gid_call :: "json \<Rightarrow> error + pyint" where
  "entry_gid_call entry = Inl AttributeError"

text \<open>
  \<open>user_gids\<close> is keyed by the users' gids, compared by their numbers; a later user with
  the same gid replaces the value and keeps the first one's place.
\<close>

definition user_gids_of :: "UserEntry list \<Rightarrow> (int \<times> UserEntry) list" where
  "user_gids_of us = fold (\<lambda>u. AList.update (pyint_val (gid u)) u) us []"

fun groups_loop ::
  "InstanceConfig \<Rightarrow> (int \<times> UserEntry) list \<Rightarrow> nat \<Rightarrow> json list
     \<Rightarrow> GroupEntry list \<times> (error + (int \<times> UserEntry) list)" where
  "groups_loop self user_gids n [] = ([], Inr user_gids)"
| "groups_loop self user_gids n (entry # entries) =
     (case entry_gid_call entry of
        Inl e \<Rightarrow> ([], Inl e)
      | Inr g \<Rightarrow>
          (case GroupEntry_init self entry n of
             Inl e \<Rightarrow> ([], Inl e)
           | Inr ge \<Rightarrow>
               (case groups_loop self
                       (if pyint_val g \<in> fst ` set user_gids
                        then AList.delete (pyint_val g) user_gids else user_gids)
                       (Suc n) entries of
                  (ys, r) \<Rightarrow> (ge # ys, r))))"

fun vgroups_loop :: "UserEntry list \<Rightarrow> GroupEntry generator" where
  "vgroups_loop [] = ([], None)"
| "vgroups_loop (uentry # uentries) =
     (case vgroup uentry of
        Inl e \<Rightarrow> ([], Some e)
      | Inr ge \<Rightarrow> (case vgroups_loop uentries of (ys, r) \<Rightarrow> (ge # ys, r)))"

definition groups :: "InstanceConfig \<Rightarrow> GroupEntry generator" where
  "groups self =
     (case users self of
        (us, Some e) \<Rightarrow> ([], Some e)
      | (us, None) \<Rightarrow>
          (case all_entries self ''groups'' of
             Inl e \<Rightarrow> ([], Some e)
           | Inr entries \<Rightarrow>
               (case groups_loop self (user_gids_of us) 0 entries of
                  (ys, Inl e) \<Rightarrow> (ys, Some e)
                | (ys, Inr user_gids) \<Rightarrow>
                    (case vgroups_loop (map snd user_gids) of
                       (vs, r) \<Rightarrow> (ys @ vs, r)))))"

section \<open>Loading documents\<close>

lemma map_of_dict_update:
  "distinct (map fst other) \<Longrightarrow> map_of (dict_update d other) = map_of d ++ map_of other"
  unfolding dict_update_def
proof (induction other arbitrary: d)
  case Nil
  then show ?case by simp
next
  case (Cons kv other)
  obtain k v where kv: "kv = (k, v)" by (cases kv)
  from Cons.prems have notin: "k \<notin> fst ` set other" and dist: "distinct (map fst other)"
    by (auto simp: kv)
  from notin have none: "map_of other k = None"
    by (simp add: map_of_eq_None_iff)
  have "map_of (fold (\<lambda>kv. AList.update (fst kv) (snd kv)) (kv # other) d)
        = map_of (AList.update k v d) ++ map_of other"
    using Cons.IH [OF dist] by (simp add: kv)
  also have "\<dots> = map_of d ++ map_of (kv # other)"
    using none by (auto simp: kv update_conv' map_add_def fun_eq_iff split: option.splits)
  finally show ?case .
qed

lemma load_dict:
  "load g (JDict d) =
     (case map_of d ''samba-container-config'' of
        None \<Rightarrow> (Inl ValueError_no_version_key, g)
      | Some v \<Rightarrow>
          if v = JNull then (Inl ValueError_no_version_key, g)
          else if v = JStr ''v0'' then (Inr (), g\<lparr>data := dict_update (data g) d\<rparr>)
          else (Inl (ValueError_unknown_version v), g))"
  by (auto simp: load_def VALID_VERSIONS_def split: option.splits)

lemma load_non_dict:
  "(\<forall>d. doc \<noteq> JDict d) \<Longrightarrow> load g doc = (Inl AttributeError, g)"
  by (cases doc) (simp_all add: load_def)

text \<open>
  C5, as the code has it. For every document that is a JSON object, \<open>load\<close> fails with
  \<open>InvalidConfig\<close> if and only if the object has no version marker key or the marker's
  value is not in the accepted set; an object with marker \<open>v0\<close> is accepted and merged
  into the store. A document that is not an object fails with \<^verbatim>\<open>AttributeError\<close> at the
  marker lookup.
\<close>

theorem load_version_check:
  "((\<exists>e. fst (load g (JDict d)) = Inl e \<and> is_InvalidConfig e)
      \<longleftrightarrow> (map_of d ''samba-container-config'' = None
           \<or> (\<exists>v. map_of d ''samba-container-config'' = Some v
                  \<and> v \<notin> JStr ` set VALID_VERSIONS)))
   \<and> (map_of d ''samba-container-config'' = Some (JStr ''v0'')
        \<longrightarrow> load g (JDict d) = (Inr (), g\<lparr>data := dict_update (data g) d\<rparr>))
   \<and> ((\<forall>d'. doc \<noteq> JDict d') \<longrightarrow> load g doc = (Inl AttributeError, g))"
  by (auto simp: load_dict load_non_dict VALID_VERSIONS_def split: option.splits)

theorem load_version_check_witness:
  "load \<lparr>data = []\<rparr> (JDict [(''samba-container-config'', JStr ''v0''), (''configs'', JDict [])])
     = (Inr (), \<lparr>data = [(''samba-container-config'', JStr ''v0''), (''configs'', JDict [])]\<rparr>)
   \<and> load \<lparr>data = []\<rparr> (JInt 3) = (Inl AttributeError, \<lparr>data = []\<rparr>)"
  using load_version_check [of "\<lparr>data = []\<rparr>"
      "[(''samba-container-config'', JStr ''v0''), (''configs'', JDict [])]" "JInt 3"]
  by (simp add: dict_update_def)

text \<open>
  C5 as stated fails: the document \<^verbatim>\<open>[]\<close> has no version marker key, and loading it fails
  with \<^verbatim>\<open>AttributeError\<close>, which is not \<open>InvalidConfig\<close>.
\<close>

theorem load_non_object_counterexample:
  "fst (load \<lparr>data = []\<rparr> (JList [])) = Inl AttributeError
   \<and> \<not> is_InvalidConfig AttributeError"
  by (simp add: load_def)

text \<open>
  C6. Two valid documents loaded in sequence: every top-level key of the second document
  has exactly the second document's value in the store (the value is replaced, not
  merged with the first document's), a key of the first document alone keeps the first
  document's value, and any other key is as it was in the store before.
\<close>

theorem load_shallow_merge:
  assumes "load g (JDict d1) = (Inr (), g1)" and "load g1 (JDict d2) = (Inr (), g2)"
    and "distinct (map fst d1)" and "distinct (map fst d2)"
  shows "map_of (data g2) k =
     (case map_of d2 k of
        Some v \<Rightarrow> Some v
      | None \<Rightarrow> (case map_of d1 k of Some v \<Rightarrow> Some v | None \<Rightarrow> map_of (data g) k))"
proof -
  from assms(1) have g1: "data g1 = dict_update (data g) d1"
    by (auto simp: load_dict split: option.splits if_splits)
  from assms(2) have g2: "data g2 = dict_update (data g1) d2"
    by (auto simp: load_dict split: option.splits if_splits)
  show ?thesis
    by (simp add: g1 g2 map_of_dict_update assms(3,4) map_add_def split: option.splits)
qed

theorem load_shallow_merge_witness:
  "load \<lparr>data = []\<rparr>
      (JDict [(''samba-container-config'', JStr ''v0''),
              (''globals'', JDict [(''g1'', JDict [])]),
              (''shares'', JDict [(''s1'', JDict [])])])
     = (Inr (), \<lparr>data = [(''samba-container-config'', JStr ''v0''),
                         (''globals'', JDict [(''g1'', JDict [])]),
                         (''shares'', JDict [(''s1'', JDict [])])]\<rparr>)
   \<and> load \<lparr>data = [(''samba-container-config'', JStr ''v0''),
                    (''globals'', JDict [(''g1'', JDict [])]),
                    (''shares'', JDict [(''s1'', JDict [])])]\<rparr>
      (JDict [(''samba-container-config'', JStr ''v0''),
              (''globals'', JDict [(''g2'', JDict [])])])
     = (Inr (), \<lparr>data = [(''samba-container-config'', JStr ''v0''),
                         (''globals'', JDict [(''g2'', JDict [])]),
                         (''shares'', JDict [(''s1'', JDict [])])]\<rparr>)
   \<and> map_of [(''samba-container-config'', JStr ''v0''),
              (''globals'', JDict [(''g2'', JDict [])]),
              (''shares'', JDict [(''s1'', JDict [])])] ''globals''
       = Some (JDict [(''g2'', JDict [])])
   \<and> map_of [(''samba-container-config'', JStr ''v0''),
              (''globals'', JDict [(''g2'', JDict [])]),
              (''shares'', JDict [(''s1'', JDict [])])] ''shares''
       = Some (JDict [(''s1'', JDict [])])"
proof -
  let ?d1 = "[(''samba-container-config'', JStr ''v0''),
              (''globals'', JDict [(''g1'', JDict [])]),
              (''shares'', JDict [(''s1'', JDict [])])]"
  let ?d2 = "[(''samba-container-config'', JStr ''v0''),
              (''globals'', JDict [(''g2'', JDict [])])]"
  let ?m = "[(''samba-container-config'', JStr ''v0''),
             (''globals'', JDict [(''g2'', JDict [])]),
             (''shares'', JDict [(''s1'', JDict [])])]"
  have l1: "load \<lparr>data = []\<rparr> (JDict ?d1) = (Inr (), \<lparr>data = ?d1\<rparr>)"
    by (simp add: load_dict dict_update_def)
  have l2: "load \<lparr>data = ?d1\<rparr> (JDict ?d2) = (Inr (), \<lparr>data = ?m\<rparr>)"
    by (simp add: load_dict dict_update_def)
  have d1: "distinct (map fst ?d1)" by simp
  have d2: "distinct (map fst ?d2)" by simp
  note m = load_shallow_merge [OF l1 l2 d1 d2]
  from m [of "''globals''"] m [of "''shares''"] l1 l2 show ?thesis by simp
qed

text \<open>
  C10. A load that fails leaves the store exactly as it was; a document whose version
  marker is missing or not accepted fails so; and the store changes only by the merge
  of a document whose marker is \<open>v0\<close>.
\<close>

theorem load_atomic:
  "(fst (load g doc) \<noteq> Inr () \<longrightarrow> snd (load g doc) = g)
   \<and> (map_of d ''samba-container-config'' \<notin> Some ` JStr ` set VALID_VERSIONS
        \<longrightarrow> (\<exists>e. load g (JDict d) = (Inl e, g) \<and> is_InvalidConfig e))
   \<and> (fst (load g doc) = Inr ()
        \<longrightarrow> (\<exists>d'. doc = JDict d' \<and> map_of d' ''samba-container-config'' = Some (JStr ''v0'')
               \<and> snd (load g doc) = g\<lparr>data := dict_update (data g) d'\<rparr>))"
  by (cases doc)
     (auto simp: load_dict load_non_dict VALID_VERSIONS_def split: option.splits)

theorem load_atomic_witness:
  "fst (load \<lparr>data = [(''configs'', JDict [])]\<rparr>
          (JDict [(''samba-container-config'', JStr ''v9''), (''configs'', JInt 1)])) \<noteq> Inr ()
   \<and> snd (load \<lparr>data = [(''configs'', JDict [])]\<rparr>
          (JDict [(''samba-container-config'', JStr ''v9''), (''configs'', JInt 1)]))
       = \<lparr>data = [(''configs'', JDict [])]\<rparr>"
  using load_atomic [of "\<lparr>data = [(''configs'', JDict [])]\<rparr>"
      "JDict [(''samba-container-config'', JStr ''v9''), (''configs'', JInt 1)]"
      "[(''samba-container-config'', JStr ''v9''), (''configs'', JInt 1)]"]
  by (simp add: load_dict)

section \<open>Global options and missing keys\<close>

lemma sections_loop_ok:
  "list_all2 (\<lambda>x opts. section_options g x = Inr opts) xs optss
     \<Longrightarrow> sections_loop g xs = (concat optss, None)"
  by (induction xs optss rule: list_all2_induct) simp_all

lemma section_options_present:
  assumes "map_of (data g) ''globals'' = Some (JDict gs)"
    and "map_of gs n = Some (JDict sec)"
    and "case map_of sec ''options'' of None \<Rightarrow> opts = [] | Some v \<Rightarrow> v = JDict opts"
  shows "section_options g (JStr n) = Inr opts"
  using assms by (auto simp: section_options_def split: option.splits)

lemma section_options_absent:
  assumes "map_of (data g) ''globals'' = Some (JDict gs)" and "map_of gs n = None"
  shows "section_options g (JStr n) = Inl (KeyError (JStr n))"
  using assms by (simp add: section_options_def)

lemma sections_loop_fail:
  assumes "\<forall>x\<in>set pre. \<exists>kvs. section_options g x = Inr kvs"
    and "section_options g x = Inl e"
  shows "snd (sections_loop g (pre @ x # post)) = Some e"
  using assms by (induction pre) (auto split: prod.splits)

text \<open>
  C4, as the code has it. For an instance whose referenced global sections all exist
  (each an object whose \<open>options\<close>, when present, is an object), \<open>global_options\<close> yields
  the pairs of every referenced section, sections in the listed order and each section's
  options in stored order, nothing deduplicated; and it ends with the pair
  \<open>(netbios name, instance name)\<close> if and only if the instance name is present and truthy:
  an empty name (or any other falsy value) yields no pair.
\<close>

theorem global_options_pairs:
  assumes "iconfig ic = JDict i"
    and "map_of i ''globals'' = Some (JList (map JStr names))"
    and "map_of (data (gconfig ic)) ''globals'' = Some (JDict gs)"
    and "list_all2 (\<lambda>n opts. \<exists>sec. map_of gs n = Some (JDict sec)
            \<and> (case map_of sec ''options'' of None \<Rightarrow> opts = [] | Some v \<Rightarrow> v = JDict opts))
          names optss"
  shows "global_options ic =
     (concat optss
        @ (case map_of i ''instance_name'' of
             Some v \<Rightarrow> if truthy v then [(''netbios name'', v)] else []
           | None \<Rightarrow> []),
      None)"
proof -
  from assms(4) have "list_all2 (\<lambda>x opts. section_options (gconfig ic) x = Inr opts)
      (map JStr names) optss"
    by (auto simp: list_all2_map1 elim!: list_all2_mono
          intro: section_options_present [OF assms(3)])
  then have loop: "sections_loop (gconfig ic) (map JStr names) = (concat optss, None)"
    by (rule sections_loop_ok)
  show ?thesis
    by (simp add: global_options_def assms(1,2) loop split: option.splits)
qed

theorem global_options_pairs_witness:
  "global_options
     \<lparr>gconfig = \<lparr>data = [(''globals'',
         JDict [(''A'', JDict [(''options'',
                   JDict [(''workgroup'', JStr ''WG''), (''netbios name'', JStr ''OLD'')])]),
                (''B'', JDict [(''options'', JDict [(''workgroup'', JStr ''WG2'')])])])]\<rparr>,
      iconfig = JDict [(''globals'', JList [JStr ''A'', JStr ''B'']),
                       (''instance_name'', JStr ''box'')]\<rparr>
   = ([(''workgroup'', JStr ''WG''), (''netbios name'', JStr ''OLD''),
       (''workgroup'', JStr ''WG2''), (''netbios name'', JStr ''box'')], None)"
proof -
  let ?A = "[(''workgroup'', JStr ''WG''), (''netbios name'', JStr ''OLD'')]"
  let ?B = "[(''workgroup'', JStr ''WG2'')]"
  let ?gs = "[(''A'', JDict [(''options'', JDict ?A)]), (''B'', JDict [(''options'', JDict ?B)])]"
  let ?i = "[(''globals'', JList [JStr ''A'', JStr ''B'']), (''instance_name'', JStr ''box'')]"
  let ?ic = "\<lparr>gconfig = \<lparr>data = [(''globals'', JDict ?gs)]\<rparr>, iconfig = JDict ?i\<rparr>"
  have h1: "iconfig ?ic = JDict ?i" by simp
  have h2: "map_of ?i ''globals'' = Some (JList (map JStr [''A'', ''B'']))" by simp
  have h3: "map_of (data (gconfig ?ic)) ''globals'' = Some (JDict ?gs)" by simp
  have h4: "list_all2 (\<lambda>n opts. \<exists>sec. map_of ?gs n = Some (JDict sec)
            \<and> (case map_of sec ''options'' of None \<Rightarrow> opts = [] | Some v \<Rightarrow> v = JDict opts))
          [''A'', ''B''] [?A, ?B]"
    by simp
  from global_options_pairs [OF h1 h2 h3 h4] show ?thesis by simp
qed

text \<open>
  C4 as stated fails: an instance configured with the instance name \<^verbatim>\<open>""\<close> yields no
  \<open>netbios name\<close> pair.
\<close>

theorem global_options_empty_name_counterexample:
  "global_options
     \<lparr>gconfig = \<lparr>data = []\<rparr>,
      iconfig = JDict [(''globals'', JList []), (''instance_name'', JStr '''')]\<rparr>
   = ([], None)"
  by (simp add: global_options_def)

text \<open>
  C8. \<open>get\<close> with an identifier that is not a key of the \<open>configs\<close> mapping,
  \<open>global_options\<close> reaching a referenced section name that is not a key of the
  \<open>globals\<close> mapping (the sections listed before it being there), and \<open>share_options\<close>
  of a share whose name is not a key of the \<open>shares\<close> mapping each fail with \<^verbatim>\<open>KeyError\<close>,
  the \<open>MissingKey\<close> of the specification.
\<close>

theorem missing_key_errors:
  "(map_of (data g) ''configs'' = Some (JDict cs) \<and> map_of cs ident = None
      \<longrightarrow> get g ident = Inl (KeyError (JStr ident)) \<and> is_MissingKey (KeyError (JStr ident)))
   \<and> (iconfig ic = JDict i \<and> map_of i ''globals'' = Some (JList (pre @ JStr gname # post))
       \<and> map_of (data (gconfig ic)) ''globals'' = Some (JDict gs)
       \<and> (\<forall>x\<in>set pre. \<exists>kvs. section_options (gconfig ic) x = Inr kvs)
       \<and> map_of gs gname = None
      \<longrightarrow> snd (global_options ic) = Some (KeyError (JStr gname))
          \<and> is_MissingKey (KeyError (JStr gname)))
   \<and> (map_of (data (share_gconfig sc)) ''shares'' = Some (JDict ss) \<and> name sc = JStr sname
       \<and> map_of ss sname = None
      \<longrightarrow> share_options sc = Inl (KeyError (JStr sname)) \<and> is_MissingKey (KeyError (JStr sname)))"
proof (intro conjI impI)
  assume "map_of (data g) ''configs'' = Some (JDict cs) \<and> map_of cs ident = None"
  then show "get g ident = Inl (KeyError (JStr ident))"
    by (simp add: get_def)
next
  assume a: "iconfig ic = JDict i \<and> map_of i ''globals'' = Some (JList (pre @ JStr gname # post))
       \<and> map_of (data (gconfig ic)) ''globals'' = Some (JDict gs)
       \<and> (\<forall>x\<in>set pre. \<exists>kvs. section_options (gconfig ic) x = Inr kvs)
       \<and> map_of gs gname = None"
  then have "section_options (gconfig ic) (JStr gname) = Inl (KeyError (JStr gname))"
    by (simp add: section_options_absent)
  with a have "snd (sections_loop (gconfig ic) (pre @ JStr gname # post))
      = Some (KeyError (JStr gname))"
    by (simp add: sections_loop_fail)
  with a show "snd (global_options ic) = Some (KeyError (JStr gname))"
    by (auto simp: global_options_def split: prod.splits option.splits)
next
  assume "map_of (data (share_gconfig sc)) ''shares'' = Some (JDict ss) \<and> name sc = JStr sname
       \<and> map_of ss sname = None"
  then show "share_options sc = Inl (KeyError (JStr sname))"
    by (simp add: share_options_def)
qed simp_all

theorem missing_key_errors_witness:
  "get \<lparr>data = [(''configs'', JDict [(''x'', JDict [])])]\<rparr> ''y'' = Inl (KeyError (JStr ''y''))
   \<and> global_options
       \<lparr>gconfig = \<lparr>data = [(''globals'',
            JDict [(''g1'', JDict [(''options'', JDict [(''workgroup'', JStr ''WG'')])])])]\<rparr>,
        iconfig = JDict [(''globals'', JList [JStr ''g1'', JStr ''g2''])]\<rparr>
     = ([(''workgroup'', JStr ''WG'')], Some (KeyError (JStr ''g2'')))
   \<and> share_options
       \<lparr>share_gconfig = \<lparr>data = [(''shares'', JDict [(''s1'', JDict [])])]\<rparr>,
        name = JStr ''s2''\<rparr>
     = Inl (KeyError (JStr ''s2''))"
  using missing_key_errors [of
      "\<lparr>data = [(''configs'', JDict [(''x'', JDict [])])]\<rparr>" "[(''x'', JDict [])]" "''y''"
      "\<lparr>gconfig = \<lparr>data = [(''globals'',
            JDict [(''g1'', JDict [(''options'', JDict [(''workgroup'', JStr ''WG'')])])])]\<rparr>,
        iconfig = JDict [(''globals'', JList [JStr ''g1'', JStr ''g2''])]\<rparr>"
      "[(''globals'', JList [JStr ''g1'', JStr ''g2''])]"
      "[JStr ''g1'']" "''g2''" "[]"
      "[(''g1'', JDict [(''options'', JDict [(''workgroup'', JStr ''WG'')])])]"
      "\<lparr>share_gconfig = \<lparr>data = [(''shares'', JDict [(''s1'', JDict [])])]\<rparr>,
        name = JStr ''s2''\<rparr>"
      "[(''s1'', JDict [])]" "''s2''"]
  by (simp add: section_options_def global_options_def)

section \<open>Users and groups\<close>

lemma users_loop_nth:
  "users_loop ic n entries = (us, None) \<Longrightarrow>
     length us = length entries
     \<and> (\<forall>i<length entries. UserEntry_init ic (entries ! i) (n + i) = Inr (us ! i))"
proof (induction entries arbitrary: n us)
  case Nil
  then show ?case by simp
next
  case (Cons entry entries)
  from Cons.prems obtain u ys where
    u: "UserEntry_init ic entry n = Inr u" and
    ys: "users_loop ic (Suc n) entries = (ys, None)" and
    us: "us = u # ys"
    by (auto split: sum.splits prod.splits)
  from Cons.IH [OF ys] have len: "length ys = length entries" and
    nth: "\<And>i. i < length entries \<Longrightarrow> UserEntry_init ic (entries ! i) (Suc n + i) = Inr (ys ! i)"
    by auto
  show ?case
  proof (intro conjI allI impI)
    show "length us = length (entry # entries)" by (simp add: us len)
  next
    fix i assume "i < length (entry # entries)"
    then show "UserEntry_init ic ((entry # entries) ! i) (n + i) = Inr (us ! i)"
      using u nth [of "i - 1"] by (cases i) (auto simp: us)
  qed
qed

lemma UserEntry_init_dict:
  "UserEntry_init ic (JDict r) n =
     (case map_of r ''name'' of
        None \<Rightarrow> Inl (KeyError (JStr ''name''))
      | Some nm \<Rightarrow>
          (case check_id ValueError_invalid_uid (case map_of r ''uid'' of Some v \<Rightarrow> v | None \<Rightarrow> JNull) of
             Inl e \<Rightarrow> Inl e
           | Inr u \<Rightarrow>
               (case check_id ValueError_invalid_gid (case map_of r ''gid'' of Some v \<Rightarrow> v | None \<Rightarrow> JNull) of
                  Inl e \<Rightarrow> Inl e
                | Inr g \<Rightarrow>
                    Inr \<lparr>user_iconfig = ic, username = nm, entry_num = n,
                         user_uid = u, user_gid = g\<rparr>)))"
  by (simp add: UserEntry_init_def split: option.splits sum.splits)

lemma UserEntry_init_Inr:
  assumes "UserEntry_init ic (JDict r) n = Inr u"
  shows "entry_num u = n \<and> user_iconfig u = ic
    \<and> map_of r ''name'' = Some (username u)
    \<and> check_id ValueError_invalid_uid (case map_of r ''uid'' of Some v \<Rightarrow> v | None \<Rightarrow> JNull)
          = Inr (user_uid u)
    \<and> check_id ValueError_invalid_gid (case map_of r ''gid'' of Some v \<Rightarrow> v | None \<Rightarrow> JNull)
          = Inr (user_gid u)"
  using assms by (auto simp: UserEntry_init_dict split: option.splits sum.splits)

lemma GroupEntry_init_dict:
  "GroupEntry_init ic (JDict r) n =
     (case map_of r ''name'' of
        None \<Rightarrow> Inl (KeyError (JStr ''name''))
      | Some nm \<Rightarrow>
          (case check_id ValueError_invalid_gid (case map_of r ''gid'' of Some v \<Rightarrow> v | None \<Rightarrow> JNull) of
             Inl e \<Rightarrow> Inl e
           | Inr g \<Rightarrow> Inr \<lparr>group_iconfig = ic, groupname = nm, group_gid = g\<rparr>))"
  by (simp add: GroupEntry_init_def split: option.splits sum.splits)

lemma check_id_simps:
  "check_id err JNull = Inr None"
  "check_id err (JInt i) = Inr (Some (PyInt i))"
  "check_id err (JBool b) = Inr (Some (PyBool b))"
  "v \<noteq> JNull \<Longrightarrow> \<not> isinstance_int v \<Longrightarrow> check_id err v = Inl err"
  by (simp_all add: check_id_def)

text \<open>
  C3. The user record at zero-based position \<open>i\<close> of the users source list, once \<open>users\<close>
  has run through the list: an explicit integer uid \<open>U \<noteq> 0\<close> is the effective uid; with
  no uid, or uid \<open>0\<close>, the effective uid is the uid base plus \<open>i\<close>. The same holds for
  the gid with the gid base.
\<close>

theorem user_effective_ids:
  assumes "all_entries ic ''users'' = Inr entries"
    and "users ic = (us, None)"
    and "i < length entries"
    and "entries ! i = JDict r"
  shows "length us = length entries
    \<and> (map_of r ''uid'' = Some (JInt U) \<and> U \<noteq> 0 \<longrightarrow> uid (us ! i) = PyInt U)
    \<and> (map_of r ''uid'' = None \<or> map_of r ''uid'' = Some (JInt 0)
         \<longrightarrow> uid (us ! i) = PyInt (uid_base ic + int i))
    \<and> (map_of r ''gid'' = Some (JInt G) \<and> G \<noteq> 0 \<longrightarrow> gid (us ! i) = PyInt G)
    \<and> (map_of r ''gid'' = None \<or> map_of r ''gid'' = Some (JInt 0)
         \<longrightarrow> gid (us ! i) = PyInt (gid_base ic + int i))"
proof -
  from assms(1,2) have loop: "users_loop ic 0 entries = (us, None)"
    by (simp add: users_def)
  from users_loop_nth [OF loop] assms(3,4)
  have len: "length us = length entries"
    and init: "UserEntry_init ic (JDict r) i = Inr (us ! i)"
    by auto
  from UserEntry_init_Inr [OF init] have
    num: "entry_num (us ! i) = i" and
    ic: "user_iconfig (us ! i) = ic" and
    u: "check_id ValueError_invalid_uid (case map_of r ''uid'' of Some v \<Rightarrow> v | None \<Rightarrow> JNull)
          = Inr (user_uid (us ! i))" and
    g: "check_id ValueError_invalid_gid (case map_of r ''gid'' of Some v \<Rightarrow> v | None \<Rightarrow> JNull)
          = Inr (user_gid (us ! i))"
    by simp_all
  have "map_of r ''uid'' = Some (JInt U) \<and> U \<noteq> 0 \<longrightarrow> uid (us ! i) = PyInt U"
    using u [symmetric] by (auto simp: uid_def check_id_simps)
  moreover have "map_of r ''uid'' = None \<or> map_of r ''uid'' = Some (JInt 0)
         \<longrightarrow> uid (us ! i) = PyInt (uid_base ic + int i)"
    using u [symmetric] num ic by (auto simp: uid_def check_id_simps)
  moreover have "map_of r ''gid'' = Some (JInt G) \<and> G \<noteq> 0 \<longrightarrow> gid (us ! i) = PyInt G"
    using g [symmetric] by (auto simp: gid_def check_id_simps)
  moreover have "map_of r ''gid'' = None \<or> map_of r ''gid'' = Some (JInt 0)
         \<longrightarrow> gid (us ! i) = PyInt (gid_base ic + int i)"
    using g [symmetric] num ic by (auto simp: gid_def check_id_simps)
  ultimately show ?thesis using len by blast
qed

theorem user_effective_ids_witness:
  "fst (users \<lparr>gconfig = \<lparr>data = [(''users'', JDict [(''all_entries'',
           JList [JDict [(''name'', JStr ''alice'')],
                  JDict [(''name'', JStr ''bob''), (''uid'', JInt 2000), (''gid'', JInt 0)]])])]\<rparr>,
               iconfig = JDict []\<rparr>) ! 1
   = \<lparr>user_iconfig = \<lparr>gconfig = \<lparr>data = [(''users'', JDict [(''all_entries'',
           JList [JDict [(''name'', JStr ''alice'')],
                  JDict [(''name'', JStr ''bob''), (''uid'', JInt 2000), (''gid'', JInt 0)]])])]\<rparr>,
               iconfig = JDict []\<rparr>,
      username = JStr ''bob'', entry_num = 1,
      user_uid = Some (PyInt 2000), user_gid = Some (PyInt 0)\<rparr>
   \<and> uid (fst (users \<lparr>gconfig = \<lparr>data = [(''users'', JDict [(''all_entries'',
           JList [JDict [(''name'', JStr ''alice'')],
                  JDict [(''name'', JStr ''bob''), (''uid'', JInt 2000), (''gid'', JInt 0)]])])]\<rparr>,
               iconfig = JDict []\<rparr>) ! 1) = PyInt 2000
   \<and> gid (fst (users \<lparr>gconfig = \<lparr>data = [(''users'', JDict [(''all_entries'',
           JList [JDict [(''name'', JStr ''alice'')],
                  JDict [(''name'', JStr ''bob''), (''uid'', JInt 2000), (''gid'', JInt 0)]])])]\<rparr>,
               iconfig = JDict []\<rparr>) ! 1) = PyInt 1001"
proof -
  let ?alice = "JDict [(''name'', JStr ''alice'')]"
  let ?r = "[(''name'', JStr ''bob''), (''uid'', JInt 2000), (''gid'', JInt 0)]"
  let ?ic = "\<lparr>gconfig = \<lparr>data = [(''users'', JDict [(''all_entries'',
           JList [?alice, JDict ?r])])]\<rparr>, iconfig = JDict []\<rparr>"
  let ?u0 = "\<lparr>user_iconfig = ?ic, username = JStr ''alice'', entry_num = 0,
      user_uid = None, user_gid = None\<rparr>"
  let ?u1 = "\<lparr>user_iconfig = ?ic, username = JStr ''bob'', entry_num = 1,
      user_uid = Some (PyInt 2000), user_gid = Some (PyInt 0)\<rparr>"
  have h1: "all_entries ?ic ''users'' = Inr [?alice, JDict ?r]"
    by (simp add: all_entries_def)
  have h2: "users ?ic = ([?u0, ?u1], None)"
    by (simp add: users_def h1 UserEntry_init_dict check_id_simps)
  have h3: "(1::nat) < length [?alice, JDict ?r]" by simp
  have h4: "[?alice, JDict ?r] ! 1 = JDict ?r" by simp
  from user_effective_ids [OF h1 h2 h3 h4, of 2000 0] h2
  show ?thesis by (simp add: gid_base_def)
qed

text \<open>
  C7, as the code has it. For a raw user or group record that is an object with a name:
  construction fails with \<open>InvalidValue\<close>, at construction time, if and only if its uid
  or gid field (for a group, its gid field) holds a value that is neither \<^verbatim>\<open>null\<close> nor
  accepted by \<^verbatim>\<open>isinstance(x, int)\<close>, which accepts integers and booleans; otherwise
  (each id field absent, \<^verbatim>\<open>null\<close>, an integer or a boolean) construction succeeds.
\<close>

theorem entry_construction_check:
  assumes "map_of r ''name'' = Some nm"
  shows "((\<exists>e. UserEntry_init ic (JDict r) n = Inl e \<and> is_InvalidValue e)
            \<longleftrightarrow> (\<exists>v. (map_of r ''uid'' = Some v \<or> map_of r ''gid'' = Some v)
                     \<and> v \<noteq> JNull \<and> \<not> isinstance_int v))
    \<and> ((\<exists>u. UserEntry_init ic (JDict r) n = Inr u)
            \<longleftrightarrow> \<not> (\<exists>v. (map_of r ''uid'' = Some v \<or> map_of r ''gid'' = Some v)
                     \<and> v \<noteq> JNull \<and> \<not> isinstance_int v))
    \<and> ((\<exists>e. GroupEntry_init ic (JDict r) n = Inl e \<and> is_InvalidValue e)
            \<longleftrightarrow> (\<exists>v. map_of r ''gid'' = Some v \<and> v \<noteq> JNull \<and> \<not> isinstance_int v))
    \<and> ((\<exists>g. GroupEntry_init ic (JDict r) n = Inr g)
            \<longleftrightarrow> \<not> (\<exists>v. map_of r ''gid'' = Some v \<and> v \<noteq> JNull \<and> \<not> isinstance_int v))"
proof -
  let ?u = "case map_of r ''uid'' of Some v \<Rightarrow> v | None \<Rightarrow> JNull"
  let ?g = "case map_of r ''gid'' of Some v \<Rightarrow> v | None \<Rightarrow> JNull"
  let ?bad = "\<lambda>v. v \<noteq> JNull \<and> \<not> isinstance_int v"
  have bu: "?bad ?u \<longleftrightarrow> (\<exists>v. map_of r ''uid'' = Some v \<and> v \<noteq> JNull \<and> \<not> isinstance_int v)"
    by (cases "map_of r ''uid''") simp_all
  have bg: "?bad ?g \<longleftrightarrow> (\<exists>v. map_of r ''gid'' = Some v \<and> v \<noteq> JNull \<and> \<not> isinstance_int v)"
    by (cases "map_of r ''gid''") simp_all
  have U: "UserEntry_init ic (JDict r) n =
      (if ?bad ?u then Inl ValueError_invalid_uid
       else if ?bad ?g then Inl ValueError_invalid_gid
       else Inr \<lparr>user_iconfig = ic, username = nm, entry_num = n,
                 user_uid = (if ?u = JNull then None else as_pyint ?u),
                 user_gid = (if ?g = JNull then None else as_pyint ?g)\<rparr>)"
    by (simp add: UserEntry_init_dict assms check_id_def)
  have G: "GroupEntry_init ic (JDict r) n =
      (if ?bad ?g then Inl ValueError_invalid_gid
       else Inr \<lparr>group_iconfig = ic, groupname = nm,
                 group_gid = (if ?g = JNull then None else as_pyint ?g)\<rparr>)"
    by (simp add: GroupEntry_init_dict assms check_id_def)
  have 1: "(\<exists>e. UserEntry_init ic (JDict r) n = Inl e \<and> is_InvalidValue e) \<longleftrightarrow> (?bad ?u \<or> ?bad ?g)"
    unfolding U by auto
  have 2: "(\<exists>u. UserEntry_init ic (JDict r) n = Inr u) \<longleftrightarrow> \<not> (?bad ?u \<or> ?bad ?g)"
    unfolding U by auto
  have 3: "(\<exists>e. GroupEntry_init ic (JDict r) n = Inl e \<and> is_InvalidValue e) \<longleftrightarrow> ?bad ?g"
    unfolding G by auto
  have 4: "(\<exists>g. GroupEntry_init ic (JDict r) n = Inr g) \<longleftrightarrow> \<not> ?bad ?g"
    unfolding G by auto
  show ?thesis
    unfolding 1 2 3 4 bu bg by blast
qed

theorem entry_construction_check_witness:
  "UserEntry_init \<lparr>gconfig = \<lparr>data = []\<rparr>, iconfig = JDict []\<rparr>
      (JDict [(''name'', JStr ''bob''), (''uid'', JStr ''abc'')]) 0
     = Inl ValueError_invalid_uid
   \<and> GroupEntry_init \<lparr>gconfig = \<lparr>data = []\<rparr>, iconfig = JDict []\<rparr>
      (JDict [(''name'', JStr ''bob''), (''uid'', JStr ''abc'')]) 0
     = Inr \<lparr>group_iconfig = \<lparr>gconfig = \<lparr>data = []\<rparr>, iconfig = JDict []\<rparr>,
            groupname = JStr ''bob'', group_gid = None\<rparr>"
proof -
  have h: "map_of [(''name'', JStr ''bob''), (''uid'', JStr ''abc'')] ''name'' = Some (JStr ''bob'')"
    by simp
  from entry_construction_check [OF h, of "\<lparr>gconfig = \<lparr>data = []\<rparr>, iconfig = JDict []\<rparr>" 0]
  show ?thesis
    by (simp add: UserEntry_init_dict GroupEntry_init_dict check_id_def)
qed

text \<open>
  C7 as stated fails: the record \<^verbatim>\<open>{"name": "bob", "uid": true}\<close> has a uid that is present
  and is not an integer, and its construction succeeds.
\<close>

theorem boolean_uid_counterexample:
  "UserEntry_init \<lparr>gconfig = \<lparr>data = []\<rparr>, iconfig = JDict []\<rparr>
      (JDict [(''name'', JStr ''bob''), (''uid'', JBool True)]) 0
   = Inr \<lparr>user_iconfig = \<lparr>gconfig = \<lparr>data = []\<rparr>, iconfig = JDict []\<rparr>,
          username = JStr ''bob'', entry_num = 0,
          user_uid = Some (PyBool True), user_gid = None\<rparr>"
  by (simp add: UserEntry_init_dict check_id_def)

text \<open>
  C2 fails on the code. A group record with no gid, at position 0, is constructed, and
  querying its effective gid raises \<^verbatim>\<open>AttributeError\<close> where the claim gives base + 0 =
  1000; the same with gid \<open>0\<close> at position 1. An explicit non-zero gid is returned.
\<close>

theorem group_gid_default_raises:
  "GroupEntry_init \<lparr>gconfig = \<lparr>data = []\<rparr>, iconfig = JDict []\<rparr>
      (JDict [(''name'', JStr ''staff'')]) 0
     = Inr \<lparr>group_iconfig = \<lparr>gconfig = \<lparr>data = []\<rparr>, iconfig = JDict []\<rparr>,
            groupname = JStr ''staff'', group_gid = None\<rparr>
   \<and> GroupEntry_gid \<lparr>group_iconfig = \<lparr>gconfig = \<lparr>data = []\<rparr>, iconfig = JDict []\<rparr>,
            groupname = JStr ''staff'', group_gid = None\<rparr>
     = Inl AttributeError
   \<and> GroupEntry_init \<lparr>gconfig = \<lparr>data = []\<rparr>, iconfig = JDict []\<rparr>
      (JDict [(''name'', JStr ''wheel''), (''gid'', JInt 0)]) 1
     = Inr \<lparr>group_iconfig = \<lparr>gconfig = \<lparr>data = []\<rparr>, iconfig = JDict []\<rparr>,
            groupname = JStr ''wheel'', group_gid = Some (PyInt 0)\<rparr>
   \<and> GroupEntry_gid \<lparr>group_iconfig = \<lparr>gconfig = \<lparr>data = []\<rparr>, iconfig = JDict []\<rparr>,
            groupname = JStr ''wheel'', group_gid = Some (PyInt 0)\<rparr>
     = Inl AttributeError
   \<and> GroupEntry_gid \<lparr>group_iconfig = \<lparr>gconfig = \<lparr>data = []\<rparr>, iconfig = JDict []\<rparr>,
            groupname = JStr ''ops'', group_gid = Some (PyInt 2000)\<rparr>
     = Inr (PyInt 2000)"
  by (simp add: GroupEntry_init_dict check_id_def GroupEntry_gid_def)

text \<open>
  C9 fails on the code. The user tuple is as claimed, and so is the group tuple of a
  group with an explicit non-zero gid; for a constructed group entry with no gid
  \<open>group_fields\<close> raises \<^verbatim>\<open>AttributeError\<close> and returns no tuple.
\<close>

theorem group_fields_default_raises:
  "passwd_fields \<lparr>user_iconfig = \<lparr>gconfig = \<lparr>data = []\<rparr>, iconfig = JDict []\<rparr>,
        username = JStr ''alice'', entry_num = 0, user_uid = None, user_gid = None\<rparr>
     = (JStr ''alice'', ''x'', ''1000'', ''1000'', '''', ''/invalid'', ''/bin/false'')
   \<and> group_fields \<lparr>group_iconfig = \<lparr>gconfig = \<lparr>data = []\<rparr>, iconfig = JDict []\<rparr>,
        groupname = JStr ''ops'', group_gid = Some (PyInt 2000)\<rparr>
     = Inr (JStr ''ops'', ''x'', ''2000'', '''')
   \<and> GroupEntry_init \<lparr>gconfig = \<lparr>data = []\<rparr>, iconfig = JDict []\<rparr>
        (JDict [(''name'', JStr ''staff'')]) 0
     = Inr \<lparr>group_iconfig = \<lparr>gconfig = \<lparr>data = []\<rparr>, iconfig = JDict []\<rparr>,
            groupname = JStr ''staff'', group_gid = None\<rparr>
   \<and> group_fields \<lparr>group_iconfig = \<lparr>gconfig = \<lparr>data = []\<rparr>, iconfig = JDict []\<rparr>,
        groupname = JStr ''staff'', group_gid = None\<rparr>
     = Inl AttributeError"
  by (simp add: passwd_fields_def group_fields_def GroupEntry_gid_def GroupEntry_init_dict
        check_id_def uid_def gid_def uid_base_def gid_base_def dir_def shell_def
        str_int_def str_nat.simps)

lemma groups_loop_first_entry:
  "groups_loop ic user_gids n (entry # entries) = ([], Inl AttributeError)"
  by (simp add: entry_gid_call_def)

lemma groups_raises:
  assumes "users ic = (us, None)" and "all_entries ic ''groups'' = Inr (entry # entries)"
  shows "groups ic = ([], Some AttributeError)"
  using assms by (simp add: groups_def entry_gid_call_def)

text \<open>
  C1 fails on the code. With the one user \<open>alice\<close> and no group records, \<open>groups\<close> yields
  the virtual group \<open>alice\<close> with gid 1000, as claimed. With a group record, whether its
  gid is another one (2000) or the user's (1000), \<open>groups\<close> yields nothing and raises
  \<^verbatim>\<open>AttributeError\<close> at the first record, where the claim has the explicit group yielded
  (and, for gid 2000, the virtual group after it).
\<close>

theorem groups_first_record_raises:
  "groups \<lparr>gconfig = \<lparr>data =
       [(''users'', JDict [(''all_entries'', JList [JDict [(''name'', JStr ''alice'')]])])]\<rparr>,
      iconfig = JDict []\<rparr>
     = ([\<lparr>group_iconfig = \<lparr>gconfig = \<lparr>data =
            [(''users'', JDict [(''all_entries'', JList [JDict [(''name'', JStr ''alice'')]])])]\<rparr>,
           iconfig = JDict []\<rparr>,
          groupname = JStr ''alice'', group_gid = Some (PyInt 1000)\<rparr>], None)
   \<and> groups \<lparr>gconfig = \<lparr>data =
       [(''users'', JDict [(''all_entries'', JList [JDict [(''name'', JStr ''alice'')]])]),
        (''groups'', JDict [(''all_entries'',
            JList [JDict [(''name'', JStr ''staff''), (''gid'', JInt 2000)]])])]\<rparr>,
      iconfig = JDict []\<rparr>
     = ([], Some AttributeError)
   \<and> groups \<lparr>gconfig = \<lparr>data =
       [(''users'', JDict [(''all_entries'', JList [JDict [(''name'', JStr ''alice'')]])]),
        (''groups'', JDict [(''all_entries'',
            JList [JDict [(''name'', JStr ''alice''), (''gid'', JInt 1000)]])])]\<rparr>,
      iconfig = JDict []\<rparr>
     = ([], Some AttributeError)"
  by (simp add: groups_def users_def all_entries_def UserEntry_init_dict check_id_def
        user_gids_of_def entry_gid_call_def vgroup_def GroupEntry_init_dict
        gid_def gid_base_def)

end
